theory Spec2Isabelle
  imports Main
begin

section \<open>Data model of \<open>src/scripts/sim/city.js\<close>\<close>

text \<open>
  The class \<open>City\<close> is embedded as a record and its methods as functions that take the
  city and return the updated one.  JavaScript numbers are modelled as \<open>int\<close> (floating
  point is outside the model); an argument that may be \<open>undefined\<close> is an \<open>int option\<close>.
  Reading a property of \<open>null\<close> or \<open>undefined\<close> throws a \<open>TypeError\<close> in JavaScript: every
  such read is a branch returning \<open>Inl TypeError\<close>.  \<open>null\<close> and \<open>undefined\<close> are both
  \<open>None\<close>: the code only tests them for truthiness, dereferences them, or guards them
  with \<open>?.\<close>, and they behave alike in all three.
\<close>

datatype error = TypeError

text \<open>
  \<open>BuildingType\<close> is imported from \<open>./buildings/buildingType.js\<close>; the code of \<open>City\<close> names
  two of its members, every other member is \<open>other\<close>.
\<close>

datatype BuildingType = residential | road | other string

text \<open>
  Modelled from the spec: the building class behind \<open>createBuilding\<close> is not part of the
  source; a Building has a \<open>type\<close> and an optional resident count
  (\<open>building.residents?.count\<close>).
\<close>

record Building =
  type :: BuildingType
  residents :: "int option"

text \<open>
  Modelled from the spec: \<open>./tile.js\<close> is not part of the source; a Parcel has its
  coordinates, an identity token and at most one Building.  The fields \<open>x\<close>, \<open>y\<close> and \<open>id\<close>
  of the source are \<open>tile_x\<close>, \<open>tile_y\<close> and \<open>tile_id\<close>.
\<close>

record Tile =
  tile_x :: int
  tile_y :: int
  tile_id :: nat
  building :: "Building option"

text \<open>
  One entry of the table \<open>levels\<close>.  Exactly one of \<open>citizens\<close>, \<open>buildings\<close>, \<open>road\<close> is
  present in each entry of the source; an absent key reads \<open>undefined\<close>.  The key \<open>road\<close> of
  the source is \<open>road_m\<close> and its flag \<open>done\<close> is \<open>mdone\<close>.
\<close>

record Mission =
  mission :: string
  citizens :: "int option"
  buildings :: "int option"
  road_m :: "int option"
  mdone :: bool

text \<open>
  Calls into the collaborators the class does not own (\<open>window.ui\<close>, the vehicle graph,
  the views of tiles and buildings) are recorded, in call order, in a log.
\<close>

datatype effect =
    ui_notify string string
  | ui_soundEffect string
  | ui_toggleFinished
  | graph_updateTile int int "Building option"
  | tile_refreshView int int
  | building_dispose int int

text \<open>
  The fields of \<open>City\<close> the methods read or write.  \<open>size\<close> is \<open>city_size\<close>.  The object
  \<open>levels\<close> maps a level to its missions, listed in the order \<open>Object.keys\<close> enumerates
  them (ascending integer keys).  \<open>tiles\<close> is the array of columns.
\<close>

record City =
  city_size :: int
  money :: int
  simTime :: int
  tiles :: "Tile list list"
  level :: int
  missionCounter :: int
  levels :: "int \<rightharpoonup> Mission list"
  effects :: "effect list"

definition emit :: "effect list \<Rightarrow> City \<Rightarrow> City" where
  "emit es c = c\<lparr>effects := effects c @ es\<rparr>"

definition level1_missions :: "Mission list" where
  "level1_missions =
     [\<lparr>mission = ''Obtem 35 Residentes'', citizens = Some 35, buildings = None,
        road_m = None, mdone = False\<rparr>,
      \<lparr>mission = ''5 Edificios Construidos'', citizens = None, buildings = Some 5,
        road_m = None, mdone = False\<rparr>,
      \<lparr>mission = ''Ter Pelo Menos 1 Rua'', citizens = None, buildings = None,
        road_m = Some 1, mdone = False\<rparr>]"

definition level2_missions :: "Mission list" where
  "level2_missions =
     [\<lparr>mission = ''Obtem 75 Residentes'', citizens = Some 75, buildings = None,
        road_m = None, mdone = False\<rparr>,
      \<lparr>mission = ''10 Edificios Construidos'', citizens = None, buildings = Some 10,
        road_m = None, mdone = False\<rparr>,
      \<lparr>mission = ''Ter Pelo Menos 5 Ruas'', citizens = None, buildings = None,
        road_m = Some 5, mdone = False\<rparr>]"

definition initial_levels :: "int \<rightharpoonup> Mission list" where
  "initial_levels = [1 \<mapsto> level1_missions, 2 \<mapsto> level2_missions]"

subsection \<open>Construction\<close>

text \<open>
  Modelled from the spec: the constructor of \<open>Tile\<close> is not part of the source; it stores
  the coordinates it is given, starts empty, and the identity tokens of distinct
  parcels differ.  The token of the parcel created at \<open>(x, y)\<close> is its rank in creation
  order.
\<close>

definition new_Tile :: "int \<Rightarrow> int \<Rightarrow> int \<Rightarrow> Tile" where
  "new_Tile n x y = \<lparr>tile_x = x, tile_y = y, tile_id = nat (x * n + y), building = None\<rparr>"

text \<open>The two nested loops of the constructor: column \<open>x\<close> holds the tiles \<open>(x, 0..size-1)\<close>.\<close>

definition new_City :: "int \<Rightarrow> int \<Rightarrow> City" where
  "new_City n m =
     \<lparr>city_size = n, money = m, simTime = 0,
      tiles = map (\<lambda>x. map (\<lambda>y. new_Tile n (int x) (int y)) [0..<nat n]) [0..<nat n],
      level = 1, missionCounter = 0, levels = initial_levels, effects = []\<rparr>"

subsection \<open>\<open>getTile\<close>\<close>

text \<open>Reading index \<open>i\<close> of a JavaScript array: \<open>undefined\<close> outside the array.\<close>

definition js_index :: "'a list \<Rightarrow> int \<Rightarrow> 'a option" where
  "js_index xs i = (if 0 \<le> i \<and> i < int (length xs) then Some (xs ! nat i) else None)"

text \<open>
  \<open>getTile\<close> returns \<open>null\<close> outside the bounds and \<open>this.tiles[x][y]\<close> inside them; the
  latter throws when \<open>this.tiles[x]\<close> is \<open>undefined\<close>.
\<close>

definition getTile :: "City \<Rightarrow> int option \<Rightarrow> int option \<Rightarrow> error + Tile option" where
  "getTile c x y =
     (case x of None \<Rightarrow> Inr None
      | Some xv \<Rightarrow>
        (case y of None \<Rightarrow> Inr None
         | Some yv \<Rightarrow>
           if xv < 0 \<or> yv < 0 \<or> xv \<ge> city_size c \<or> yv \<ge> city_size c then Inr None
           else (case js_index (tiles c) xv of
                   None \<Rightarrow> Inl TypeError
                 | Some column \<Rightarrow> Inr (js_index column yv))))"

text \<open>
  \<open>tile.setBuilding(value)\<close> on the tile object stored at \<open>tiles[x][y]\<close>: the object is
  mutated in place, so the entry of the matrix changes.  The constructor stores a
  fresh object in every entry, so no other entry aliases it.
\<close>

definition setBuilding :: "City \<Rightarrow> int \<Rightarrow> int \<Rightarrow> Building option \<Rightarrow> City" where
  "setBuilding c x y b =
     c\<lparr>tiles := (tiles c)[nat x := (tiles c ! nat x)[nat y :=
                   (tiles c ! nat x ! nat y)\<lparr>building := b\<rparr>]]\<rparr>"

text \<open>\<open>this.getTile(x, y)?.refreshView(this)\<close>: nothing happens when the tile is absent.\<close>

definition refreshView_opt :: "City \<Rightarrow> int \<Rightarrow> int \<Rightarrow> error + City" where
  "refreshView_opt c x y =
     (case getTile c (Some x) (Some y) of
        Inl e \<Rightarrow> Inl e
      | Inr None \<Rightarrow> Inr c
      | Inr (Some t) \<Rightarrow> Inr (emit [tile_refreshView x y] c))"

text \<open>The four neighbour refreshes that end \<open>placeBuilding\<close>, \<open>bulldoze\<close> and \<open>destroy\<close>.\<close>

definition refreshNeighbors :: "City \<Rightarrow> int \<Rightarrow> int \<Rightarrow> error + City" where
  "refreshNeighbors c x y =
     (case refreshView_opt c (x - 1) y of Inl e \<Rightarrow> Inl e | Inr c1 \<Rightarrow>
      (case refreshView_opt c1 (x + 1) y of Inl e \<Rightarrow> Inl e | Inr c2 \<Rightarrow>
       (case refreshView_opt c2 x (y - 1) of Inl e \<Rightarrow> Inl e | Inr c3 \<Rightarrow>
        refreshView_opt c3 x (y + 1))))"

subsection \<open>\<open>population\<close>\<close>

text \<open>\<open>tile.building?.residents?.count ?? 0\<close>\<close>

definition residents_count :: "Tile \<Rightarrow> int" where
  "residents_count t =
     (case building t of None \<Rightarrow> 0
      | Some b \<Rightarrow> (case residents b of None \<Rightarrow> 0 | Some k \<Rightarrow> k))"

text \<open>
  The getter never writes to the city, so both loop bounds are the \<open>size\<close> read at
  entry; the loops are recursions over the coordinates \<open>0 .. size - 1\<close>.
\<close>

fun population_column :: "City \<Rightarrow> int \<Rightarrow> int list \<Rightarrow> int \<Rightarrow> error + int" where
  "population_column c x [] p = Inr p"
| "population_column c x (y # ys) p =
     (case getTile c (Some x) (Some y) of
        Inl e \<Rightarrow> Inl e
      | Inr None \<Rightarrow> Inl TypeError
      | Inr (Some t) \<Rightarrow> population_column c x ys (p + residents_count t))"

fun population_rows :: "City \<Rightarrow> int list \<Rightarrow> int \<Rightarrow> error + int" where
  "population_rows c [] p = Inr p"
| "population_rows c (x # xs) p =
     (case population_column c x [0 ..city_size c - 1] p of
        Inl e \<Rightarrow> Inl e
      | Inr p' \<Rightarrow> population_rows c xs p')"

definition population :: "City \<Rightarrow> error + int" where
  "population c = population_rows c [0 ..city_size c - 1] 0"

subsection \<open>Building economy\<close>

text \<open>\<open>hasMoneyForBuild\<close> returns its boolean together with the city it leaves behind.\<close>

definition hasMoneyForBuild :: "City \<Rightarrow> BuildingType \<Rightarrow> bool \<times> City" where
  "hasMoneyForBuild c buildingType =
     (if buildingType = residential \<and> money c \<ge> 500 then (True, c\<lparr>money := money c - 500\<rparr>)
      else if buildingType = road \<and> money c \<ge> 100 then (True, c\<lparr>money := money c - 100\<rparr>)
      else (False, c))"

text \<open>
  \<open>placeBuilding\<close>; the factory \<open>createBuilding\<close> of \<open>./buildings/buildingFactory.js\<close> is a
  parameter.
\<close>

definition placeBuilding ::
  "(int \<Rightarrow> int \<Rightarrow> BuildingType \<Rightarrow> Building) \<Rightarrow> City \<Rightarrow> int option \<Rightarrow> int option \<Rightarrow>
     BuildingType \<Rightarrow> error + City" where
  "placeBuilding createBuilding c x y buildingType =
     (case getTile c x y of
        Inl e \<Rightarrow> Inl e
      | Inr None \<Rightarrow> Inr c
      | Inr (Some tile) \<Rightarrow>
        if building tile \<noteq> None then Inr c
        else
          (case hasMoneyForBuild c buildingType of
             (False, c0) \<Rightarrow>
               Inr (emit [ui_notify ''error'' ''Dinheiro Insuficiente.''] c0)
           | (True, c0) \<Rightarrow>
               let xv = the x; yv = the y;
                   b = createBuilding xv yv buildingType;
                   c1 = emit [ui_soundEffect ''building''] c0;
                   c2 = setBuilding c1 xv yv (Some b);
                   c3 = emit [tile_refreshView xv yv] c2
               in (case refreshNeighbors c3 xv yv of
                     Inl e \<Rightarrow> Inl e
                   | Inr c4 \<Rightarrow>
                     if type b = road
                     then Inr (emit [graph_updateTile xv yv (Some b),
                                     ui_notify ''moneyTake'' ''Estrada Construida: -100$''] c4)
                     else Inr (emit [ui_notify ''moneyTake''
                                       ''Edificio Construido: -500$''] c4))))"

text \<open>
  \<open>bulldoze\<close> reads \<open>tile.building\<close> without testing \<open>tile\<close>: on \<open>null\<close> the read throws.
\<close>

definition bulldoze :: "City \<Rightarrow> int option \<Rightarrow> int option \<Rightarrow> error + City" where
  "bulldoze c x y =
     (case getTile c x y of
        Inl e \<Rightarrow> Inl e
      | Inr None \<Rightarrow> Inl TypeError
      | Inr (Some tile) \<Rightarrow>
        (case building tile of
           None \<Rightarrow> Inr c
         | Some b \<Rightarrow>
           let xv = the x; yv = the y;
               c1 = (if type b = road
                     then emit [graph_updateTile xv yv None,
                                ui_notify ''moneyGive'' ''Estrada Destruida: +50$'']
                            (c\<lparr>money := money c + 50\<rparr>)
                     else if type b = residential
                     then (emit [ui_notify ''moneyGive'' ''Edificio Destruido: +250$''] c)
                            \<lparr>money := money c + 250\<rparr>
                     else c);
               c2 = emit [ui_soundEffect ''bulldoze'', building_dispose xv yv] c1;
               c3 = setBuilding c2 xv yv None;
               c4 = emit [tile_refreshView xv yv] c3
           in refreshNeighbors c4 xv yv))"

text \<open>\<open>destroy\<close> has the same unguarded read, and acts on residential buildings only.\<close>

definition destroy :: "City \<Rightarrow> int option \<Rightarrow> int option \<Rightarrow> error + City" where
  "destroy c x y =
     (case getTile c x y of
        Inl e \<Rightarrow> Inl e
      | Inr None \<Rightarrow> Inl TypeError
      | Inr (Some tile) \<Rightarrow>
        (case building tile of
           None \<Rightarrow> Inr c
         | Some b \<Rightarrow>
           if type b = residential then
             let xv = the x; yv = the y;
                 c1 = emit [graph_updateTile xv yv None,
                            ui_notify ''error'' ''Edificio Explodido!'',
                            ui_notify ''error'' ''Residentes Nao Sobreviveram!'',
                            ui_soundEffect ''explosion'',
                            building_dispose xv yv] c;
                 c2 = setBuilding c1 xv yv None;
                 c3 = emit [tile_refreshView xv yv] c2
             in refreshNeighbors c3 xv yv
           else Inr c))"

subsection \<open>\<open>simulate\<close>\<close>

text \<open>
  The hooks \<open>service.simulate(city)\<close> and \<open>tile.simulate(city)\<close> belong to code outside
  the class.  They are parameters: \<open>services\<close> is the array \<open>this.services\<close>, one function
  per registered service, and \<open>tile_simulate t\<close> is the hook of the tile object \<open>t\<close>.  A
  hook may change any field of the city and is trusted to return.
\<close>

text \<open>The body of the scan: which counter a tile increments.\<close>

definition tally :: "Tile \<Rightarrow> int \<times> int \<Rightarrow> int \<times> int" where
  "tally t k =
     (case k of (buildCount, roadCount) \<Rightarrow>
        (case building t of
           None \<Rightarrow> (buildCount, roadCount)
         | Some b \<Rightarrow>
             if type b = residential then (buildCount + 1, roadCount)
             else if type b = road then (buildCount, roadCount + 1)
             else (buildCount, roadCount)))"

text \<open>
  The loops over \<open>y\<close> and \<open>x\<close> compare with \<open>this.size\<close> at every iteration, after the
  hooks have run: with a hook that keeps enlarging \<open>size\<close> they do not end, which is
  the value \<open>None\<close>.
\<close>

partial_function (option) simulate_column ::
  "(Tile \<Rightarrow> City \<Rightarrow> City) \<Rightarrow> int \<Rightarrow> int \<Rightarrow> City \<Rightarrow> int \<times> int \<Rightarrow>
     (error + City \<times> int \<times> int) option" where
  "simulate_column tile_simulate x y c k =
     (if y < city_size c then
        (case getTile c (Some x) (Some y) of
           Inl e \<Rightarrow> Some (Inl e)
         | Inr None \<Rightarrow> Some (Inl TypeError)
         | Inr (Some t) \<Rightarrow>
             simulate_column tile_simulate x (y + 1) (tile_simulate t c) (tally t k))
      else Some (Inr (c, k)))"

partial_function (option) simulate_rows ::
  "(Tile \<Rightarrow> City \<Rightarrow> City) \<Rightarrow> int \<Rightarrow> City \<Rightarrow> int \<times> int \<Rightarrow>
     (error + City \<times> int \<times> int) option" where
  "simulate_rows tile_simulate x c k =
     (if x < city_size c then
        (case simulate_column tile_simulate x 0 c k of
           None \<Rightarrow> None
         | Some (Inl e) \<Rightarrow> Some (Inl e)
         | Some (Inr (c', k')) \<Rightarrow> simulate_rows tile_simulate (x + 1) c' k')
      else Some (Inr (c, k)))"

text \<open>
  \<open>while (count++ < steps)\<close> runs its body \<open>steps\<close> times (never for \<open>steps \<le> 0\<close>); the
  counters \<open>buildCount\<close> and \<open>roadCount\<close> are declared before the loop and carried
  through it.
\<close>

fun simulate_steps ::
  "(City \<Rightarrow> City) list \<Rightarrow> (Tile \<Rightarrow> City \<Rightarrow> City) \<Rightarrow> nat \<Rightarrow> City \<Rightarrow> int \<times> int \<Rightarrow>
     (error + City \<times> int \<times> int) option" where
  "simulate_steps services tile_simulate 0 c k = Some (Inr (c, k))"
| "simulate_steps services tile_simulate (Suc n) c k =
     (case simulate_rows tile_simulate 0 (fold (\<lambda>service. service) services c) k of
        None \<Rightarrow> None
      | Some (Inl e) \<Rightarrow> Some (Inl e)
      | Some (Inr (c', k')) \<Rightarrow> simulate_steps services tile_simulate n c' k')"

text \<open>A value used as a condition: \<open>undefined\<close> and \<open>0\<close> are falsy.\<close>

definition truthy :: "int option \<Rightarrow> bool" where
  "truthy v = (case v of None \<Rightarrow> False | Some n \<Rightarrow> n \<noteq> 0)"

text \<open>The threshold test of one mission (the \<open>if\<close> chain inside the \<open>for\<close> loop).\<close>

definition check_mission :: "City \<Rightarrow> int \<Rightarrow> int \<Rightarrow> Mission \<Rightarrow> error + Mission" where
  "check_mission c buildCount roadCount m =
     (if truthy (citizens m) then
        (case population c of
           Inl e \<Rightarrow> Inl e
         | Inr p \<Rightarrow> Inr (if p \<ge> the (citizens m) then m\<lparr>mdone := True\<rparr> else m))
      else if truthy (buildings m) then
        Inr (if buildCount \<ge> the (buildings m) then m\<lparr>mdone := True\<rparr> else m)
      else if truthy (road_m m) then
        Inr (if roadCount \<ge> the (road_m m) then m\<lparr>mdone := True\<rparr> else m)
      else Inr m)"

text \<open>
  The \<open>for\<close> loop over the missions of the active level: the missions after the loop
  and the number of them that are done.  The loop writes to no tile, so the
  population it reads is that of the city at its entry.
\<close>

fun check_missions :: "City \<Rightarrow> int \<Rightarrow> int \<Rightarrow> Mission list \<Rightarrow> error + Mission list \<times> int" where
  "check_missions c buildCount roadCount [] = Inr ([], 0)"
| "check_missions c buildCount roadCount (m # ms) =
     (case check_mission c buildCount roadCount m of
        Inl e \<Rightarrow> Inl e
      | Inr m' \<Rightarrow>
        (case check_missions c buildCount roadCount ms of
           Inl e \<Rightarrow> Inl e
         | Inr (ms', counter) \<Rightarrow> Inr (m' # ms', (if mdone m' then 1 else 0) + counter)))"

text \<open>
  What \<open>simulate\<close> does after the \<open>while\<close> loop: the mission loop, the level-up and the
  clock.  \<open>Object.keys(this.levels[this.level])\<close> throws when the level has no entry.
\<close>

definition simulate_missions :: "City \<Rightarrow> int \<Rightarrow> int \<Rightarrow> error + City" where
  "simulate_missions c buildCount roadCount =
     (case levels c (level c) of
        None \<Rightarrow> Inl TypeError
      | Some ms \<Rightarrow>
        (case check_missions c buildCount roadCount ms of
           Inl e \<Rightarrow> Inl e
         | Inr (ms', counter) \<Rightarrow>
             let c1 = c\<lparr>missionCounter := counter, levels := (levels c)(level c \<mapsto> ms')\<rparr>;
                 c2 = (if counter = 3 then
                         (if level c1 = 1 then
                            emit [ui_notify ''moneyGive'' ''Parabens! Subiste de Nivel: +2500$'']
                              (c1\<lparr>level := level c1 + 1, money := money c1 + 2500\<rparr>)
                          else if level c1 = 2 then
                            emit [ui_notify ''success'' ''Parabens! Concluiste as Missoes!'',
                                  ui_toggleFinished] c1
                          else c1)
                       else c1)
             in Inr (c2\<lparr>simTime := simTime c2 + 1\<rparr>)))"

definition simulate ::
  "(City \<Rightarrow> City) list \<Rightarrow> (Tile \<Rightarrow> City \<Rightarrow> City) \<Rightarrow> int \<Rightarrow> City \<Rightarrow> (error + City) option" where
  "simulate services tile_simulate steps c =
     (case simulate_steps services tile_simulate (nat steps) c (0, 0) of
        None \<Rightarrow> None
      | Some (Inl e) \<Rightarrow> Some (Inl e)
      | Some (Inr (c', buildCount, roadCount)) \<Rightarrow>
          Some (simulate_missions c' buildCount roadCount))"

subsection \<open>\<open>findTile\<close>\<close>

text \<open>One conditional \<open>neighbors.push(this.getTile(..))\<close>.\<close>

definition push_tile ::
  "error + Tile option list \<Rightarrow> bool \<Rightarrow> error + Tile option \<Rightarrow> error + Tile option list" where
  "push_tile neighbors cond t =
     (case neighbors of
        Inl e \<Rightarrow> Inl e
      | Inr ns \<Rightarrow>
          if cond then (case t of Inl e \<Rightarrow> Inl e | Inr v \<Rightarrow> Inr (ns @ [v])) else Inr ns)"

definition getTileNeighbors :: "City \<Rightarrow> int \<Rightarrow> int \<Rightarrow> error + Tile option list" where
  "getTileNeighbors c x y =
     push_tile
       (push_tile
          (push_tile
             (push_tile (Inr []) (x > 0) (getTile c (Some (x - 1)) (Some y)))
             (x < city_size c - 1) (getTile c (Some (x + 1)) (Some y)))
          (y > 0) (getTile c (Some x) (Some (y - 1))))
       (y < city_size c - 1) (getTile c (Some x) (Some (y + 1)))"

text \<open>
  Modelled from the spec: \<open>Tile.distanceTo\<close> is not part of the source; it is the
  Manhattan distance on the integer coordinates of the two parcels.
\<close>

definition distanceTo :: "Tile \<Rightarrow> Tile \<Rightarrow> int" where
  "distanceTo a b = \<bar>tile_x a - tile_x b\<bar> + \<bar>tile_y a - tile_y b\<bar>"

text \<open>
  The \<open>while\<close> loop of \<open>findTile\<close> over the queue \<open>tilesToSearch\<close> and the set \<open>visited\<close>.
  Not returning is the value \<open>None\<close>; a \<open>null\<close> in the queue throws at \<open>tile.id\<close>.
\<close>

partial_function (option) findTile_search ::
  "City \<Rightarrow> Tile option \<Rightarrow> (Tile \<Rightarrow> bool) \<Rightarrow> int \<Rightarrow> nat set \<Rightarrow> Tile option list \<Rightarrow>
     (error + Tile option) option" where
  "findTile_search c startTile filter_f maxDistance visited tilesToSearch =
     (case tilesToSearch of
        [] \<Rightarrow> Some (Inr None)
      | tile # rest \<Rightarrow>
        (case tile of
           None \<Rightarrow> Some (Inl TypeError)
         | Some t \<Rightarrow>
             if tile_id t \<in> visited
             then findTile_search c startTile filter_f maxDistance visited rest
             else
               (case startTile of
                  None \<Rightarrow> Some (Inl TypeError)
                | Some s \<Rightarrow>
                    if distanceTo s t > maxDistance
                    then findTile_search c startTile filter_f maxDistance
                           (insert (tile_id t) visited) rest
                    else
                      (case getTileNeighbors c (tile_x t) (tile_y t) of
                         Inl e \<Rightarrow> Some (Inl e)
                       | Inr ns \<Rightarrow>
                           if filter_f t then Some (Inr (Some t))
                           else findTile_search c startTile filter_f maxDistance
                                  (insert (tile_id t) visited) (rest @ ns)))))"

definition findTile ::
  "City \<Rightarrow> int option \<times> int option \<Rightarrow> (Tile \<Rightarrow> bool) \<Rightarrow> int \<Rightarrow> (error + Tile option) option" where
  "findTile c start filter_f maxDistance =
     (case getTile c (fst start) (snd start) of
        Inl e \<Rightarrow> Some (Inl e)
      | Inr startTile \<Rightarrow> findTile_search c startTile filter_f maxDistance {} [startTile])"

section \<open>The grid invariant\<close>

text \<open>
  What the constructor establishes and no method of the class changes: \<open>tiles\<close> is a
  \<open>size \<times> size\<close> matrix and the tile stored at \<open>[x][y]\<close> carries the coordinates
  \<open>(x, y)\<close>.
\<close>

definition wf_city :: "City \<Rightarrow> bool" where
  "wf_city c \<longleftrightarrow>
     length (tiles c) = nat (city_size c) \<and>
     (\<forall>i < nat (city_size c).
        length (tiles c ! i) = nat (city_size c) \<and>
        (\<forall>j < nat (city_size c).
           tile_x (tiles c ! i ! j) = int i \<and> tile_y (tiles c ! i ! j) = int j))"

text \<open>The scheduled cost of a building type (500 for residential, 100 for road).\<close>

definition scheduled_cost :: "BuildingType \<Rightarrow> int option" where
  "scheduled_cost bt = (if bt = residential then Some 500 else if bt = road then Some 100 else None)"

text \<open>
  What the theorems on \<open>simulate\<close> ask of a hook: on a city that satisfies the grid
  invariant it keeps the invariant and leaves \<open>size\<close>, the clock and the mission
  state alone.  Buildings, residents and money are the hook's to change.
\<close>

definition hook_frame :: "(City \<Rightarrow> City) \<Rightarrow> bool" where
  "hook_frame h \<longleftrightarrow>
     (\<forall>c. wf_city c \<longrightarrow>
        wf_city (h c) \<and> city_size (h c) = city_size c \<and> simTime (h c) = simTime c \<and>
        level (h c) = level c \<and> levels (h c) = levels c)"

definition hooks_ok :: "(City \<Rightarrow> City) list \<Rightarrow> (Tile \<Rightarrow> City \<Rightarrow> City) \<Rightarrow> bool" where
  "hooks_ok services tile_simulate \<longleftrightarrow>
     (\<forall>h \<in> set services. hook_frame h) \<and> (\<forall>t. hook_frame (tile_simulate t))"

text \<open>A tile of the grid: the one stored at its own coordinates.\<close>

definition in_grid :: "City \<Rightarrow> Tile \<Rightarrow> bool" where
  "in_grid c t \<longleftrightarrow>
     0 \<le> tile_x t \<and> tile_x t < city_size c \<and> 0 \<le> tile_y t \<and> tile_y t < city_size c \<and>
     tiles c ! nat (tile_x t) ! nat (tile_y t) = t"

section \<open>Concrete cities\<close>

text \<open>A building factory, and cities obtained from the constructor by \<open>setBuilding\<close>.\<close>

definition plain_building :: "int \<Rightarrow> int \<Rightarrow> BuildingType \<Rightarrow> Building" where
  "plain_building x y bt = \<lparr>type = bt, residents = (if bt = residential then Some 0 else None)\<rparr>"

text \<open>A tile hook that changes nothing, and a service that pays 10 into the treasury.\<close>

definition idle_hook :: "Tile \<Rightarrow> City \<Rightarrow> City" where
  "idle_hook t c = c"

definition grant_service :: "City \<Rightarrow> City" where
  "grant_service c = c\<lparr>money := money c + 10\<rparr>"


definition house :: "int \<Rightarrow> Building" where
  "house k = \<lparr>type = residential, residents = Some k\<rparr>"

definition street :: Building where
  "street = \<lparr>type = road, residents = None\<rparr>"

definition place_all :: "City \<Rightarrow> (int \<times> int \<times> Building) list \<Rightarrow> City" where
  "place_all c bs = fold (\<lambda>(x, y, b) c'. setBuilding c' x y (Some b)) bs c"

text \<open>Size 2: three houses of 12 residents and one road.\<close>

definition small_town :: City where
  "small_town =
     place_all (new_City 2 0) [(0, 0, house 12), (0, 1, house 12), (1, 0, house 12), (1, 1, street)]"

text \<open>Size 3: five houses of 7 residents and one road.\<close>

definition big_town :: City where
  "big_town =
     place_all (new_City 3 0)
       [(0, 0, house 7), (0, 1, house 7), (0, 2, house 7), (1, 0, house 7), (1, 1, house 7),
        (1, 2, street)]"

text \<open>
  An empty city of size 2 whose road mission is already done, as it is after a road
  was built, a step simulated and the road bulldozed again: no road is left, the flag
  stays.
\<close>

definition road_removed_city :: City where
  "road_removed_city =
     (new_City 2 550)\<lparr>levels := initial_levels(1 \<mapsto>
        [level1_missions ! 0, level1_missions ! 1, (level1_missions ! 2)\<lparr>mdone := True\<rparr>])\<rparr>"

section \<open>Basic facts\<close>

lemma emit_fields [simp]:
  "city_size (emit es c) = city_size c" "money (emit es c) = money c"
  "simTime (emit es c) = simTime c" "tiles (emit es c) = tiles c"
  "level (emit es c) = level c" "levels (emit es c) = levels c"
  "missionCounter (emit es c) = missionCounter c"
  "effects (emit es c) = effects c @ es"
  by (simp_all add: emit_def)

lemma emit_emit [simp]: "emit es (emit es' c) = emit (es' @ es) c"
  by (simp add: emit_def)

lemma emit_Nil [simp]: "emit [] c = c"
  by (simp add: emit_def)

lemma getTile_emit [simp]: "getTile (emit es c) x y = getTile c x y"
  by (simp add: getTile_def split: option.splits)

lemma wf_city_emit [simp]: "wf_city (emit es c) = wf_city c"
  by (simp add: wf_city_def)

lemma wf_city_length: "wf_city c \<Longrightarrow> length (tiles c) = nat (city_size c)"
  by (simp add: wf_city_def)

lemma wf_city_column:
  "wf_city c \<Longrightarrow> i < nat (city_size c) \<Longrightarrow> length (tiles c ! i) = nat (city_size c)"
  by (simp add: wf_city_def)

lemma wf_city_coords:
  "wf_city c \<Longrightarrow> i < nat (city_size c) \<Longrightarrow> j < nat (city_size c) \<Longrightarrow>
     tile_x (tiles c ! i ! j) = int i \<and> tile_y (tiles c ! i ! j) = int j"
  by (simp add: wf_city_def)

lemma wf_city_new_City: "wf_city (new_City n m)"
  by (simp add: wf_city_def new_City_def new_Tile_def)

lemma wf_city_levels [simp]: "wf_city (c\<lparr>levels := l\<rparr>) = wf_city c"
  by (simp add: wf_city_def)

lemma new_City_fields [simp]:
  "city_size (new_City n m) = n" "money (new_City n m) = m" "simTime (new_City n m) = 0"
  "level (new_City n m) = 1" "levels (new_City n m) = initial_levels"
  "effects (new_City n m) = []"
  by (simp_all add: new_City_def)

lemma getTile_inside:
  assumes "wf_city c" "0 \<le> x" "x < city_size c" "0 \<le> y" "y < city_size c"
  shows "getTile c (Some x) (Some y) = Inr (Some (tiles c ! nat x ! nat y))"
proof -
  have "nat x < nat (city_size c)" "nat y < nat (city_size c)"
    using assms by simp_all
  with assms(1) have "length (tiles c) = nat (city_size c)"
    "length (tiles c ! nat x) = nat (city_size c)"
    by (simp_all add: wf_city_def)
  with assms show ?thesis
    by (simp add: getTile_def js_index_def)
qed

lemma getTile_outside:
  assumes "x < 0 \<or> city_size c \<le> x \<or> y < 0 \<or> city_size c \<le> y"
  shows "getTile c (Some x) (Some y) = Inr None"
  using assms by (auto simp add: getTile_def)

lemma getTile_wf_cases:
  assumes "wf_city c"
  shows "getTile c x y = Inr None \<or>
    (\<exists>xv yv. x = Some xv \<and> y = Some yv \<and> 0 \<le> xv \<and> xv < city_size c \<and> 0 \<le> yv \<and> yv < city_size c
       \<and> getTile c x y = Inr (Some (tiles c ! nat xv ! nat yv)))"
proof (cases x)
  case None
  then show ?thesis by (simp add: getTile_def)
next
  case (Some xv)
  show ?thesis
  proof (cases y)
    case None
    with Some show ?thesis by (simp add: getTile_def)
  next
    case (Some yv)
    show ?thesis
    proof (cases "0 \<le> xv \<and> xv < city_size c \<and> 0 \<le> yv \<and> yv < city_size c")
      case True
      then show ?thesis using getTile_inside [OF assms, of xv yv] \<open>x = Some xv\<close> Some by simp
    next
      case False
      then have "getTile c (Some xv) (Some yv) = Inr None"
        by (intro getTile_outside) auto
      then show ?thesis using \<open>x = Some xv\<close> Some by simp
    qed
  qed
qed

lemma refreshView_opt_wf:
  assumes "wf_city c"
  shows "\<exists>es. refreshView_opt c x y = Inr (emit es c)"
proof -
  from getTile_wf_cases [OF assms, of "Some x" "Some y"]
  show ?thesis
  proof
    assume "getTile c (Some x) (Some y) = Inr None"
    then have "refreshView_opt c x y = Inr (emit [] c)"
      by (simp add: refreshView_opt_def)
    then show ?thesis ..
  next
    assume "\<exists>xv yv. Some x = Some xv \<and> Some y = Some yv \<and> 0 \<le> xv \<and> xv < city_size c \<and> 0 \<le> yv \<and> yv < city_size c
       \<and> getTile c (Some x) (Some y) = Inr (Some (tiles c ! nat xv ! nat yv))"
    then have "refreshView_opt c x y = Inr (emit [tile_refreshView x y] c)"
      by (auto simp add: refreshView_opt_def)
    then show ?thesis ..
  qed
qed

lemma refreshNeighbors_wf:
  assumes "wf_city c"
  shows "\<exists>es. refreshNeighbors c x y = Inr (emit es c)"
proof -
  obtain e1 where 1: "refreshView_opt c (x - 1) y = Inr (emit e1 c)"
    using refreshView_opt_wf [OF assms] by blast
  have w1: "wf_city (emit e1 c)" using assms by simp
  obtain e2 where 2: "refreshView_opt (emit e1 c) (x + 1) y = Inr (emit e2 (emit e1 c))"
    using refreshView_opt_wf [OF w1] by blast
  have w2: "wf_city (emit e2 (emit e1 c))" using assms by simp
  obtain e3 where 3: "refreshView_opt (emit e2 (emit e1 c)) x (y - 1) = Inr (emit e3 (emit e2 (emit e1 c)))"
    using refreshView_opt_wf [OF w2] by blast
  have w3: "wf_city (emit e3 (emit e2 (emit e1 c)))" using assms by simp
  obtain e4 where 4: "refreshView_opt (emit e3 (emit e2 (emit e1 c))) x (y + 1) = Inr (emit e4 (emit e3 (emit e2 (emit e1 c))))"
    using refreshView_opt_wf [OF w3] by blast
  have "refreshNeighbors c x y = Inr (emit (e1 @ e2 @ e3 @ e4) c)"
    using 1 2 3 4 by (simp add: refreshNeighbors_def)
  then show ?thesis ..
qed

lemma wf_city_setBuilding:
  assumes "wf_city c"
  shows "wf_city (setBuilding c x y b)"
proof -
  let ?n = "nat (city_size c)"
  let ?c' = "setBuilding c x y b"
  let ?col = "(tiles c ! nat x)[nat y := (tiles c ! nat x ! nat y)\<lparr>building := b\<rparr>]"
  have len: "length (tiles c) = ?n" using assms by (simp add: wf_city_def)
  have column: "tiles ?c' ! i = (if i = nat x then ?col else tiles c ! i)" if "i < ?n" for i
    using that len by (auto simp add: setBuilding_def)
  have col_len: "length (tiles ?c' ! i) = ?n" if "i < ?n" for i
    using wf_city_column [OF assms, of i] wf_city_column [OF assms, of "nat x"] that
    by (auto simp add: column)
  have coords: "tile_x (tiles ?c' ! i ! j) = int i \<and> tile_y (tiles ?c' ! i ! j) = int j"
    if "i < ?n" "j < ?n" for i j
  proof -
    have old: "length (tiles c ! i) = ?n" "tile_x (tiles c ! i ! j) = int i"
      "tile_y (tiles c ! i ! j) = int j"
      using wf_city_column [OF assms, of i] wf_city_coords [OF assms, of i j] that
      by simp_all
    show ?thesis
      using old that by (cases "j = nat y") (auto simp add: column nth_list_update)
  qed
  have "length (tiles ?c') = ?n"
    using len by (simp add: setBuilding_def)
  then show ?thesis
    using col_len coords by (simp add: wf_city_def setBuilding_def)
qed

lemma setBuilding_fields [simp]:
  "city_size (setBuilding c x y b) = city_size c" "money (setBuilding c x y b) = money c"
  "simTime (setBuilding c x y b) = simTime c"
  "level (setBuilding c x y b) = level c" "levels (setBuilding c x y b) = levels c"
  "effects (setBuilding c x y b) = effects c"
  by (simp_all add: setBuilding_def)

lemma tiles_setBuilding_same:
  assumes "wf_city c" "0 \<le> x" "x < city_size c" "0 \<le> y" "y < city_size c"
  shows "tiles (setBuilding c x y b) ! nat x ! nat y = (tiles c ! nat x ! nat y)\<lparr>building := b\<rparr>"
proof -
  have "nat x < nat (city_size c)" "nat y < nat (city_size c)"
    using assms by simp_all
  with assms(1) have "nat x < length (tiles c)" "nat y < length (tiles c ! nat x)"
    by (simp_all add: wf_city_def)
  then show ?thesis by (simp add: setBuilding_def)
qed


lemma getTile_Some_inside:
  assumes "wf_city c" "getTile c x y = Inr (Some t)"
  shows "\<exists>xv yv. x = Some xv \<and> y = Some yv \<and> 0 \<le> xv \<and> xv < city_size c \<and> 0 \<le> yv \<and>
           yv < city_size c \<and> t = tiles c ! nat xv ! nat yv"
  using getTile_wf_cases [OF assms(1), of x y] assms(2) by auto

lemma wf_city_money [simp]: "wf_city (c\<lparr>money := m\<rparr>) = wf_city c"
  by (simp add: wf_city_def)

lemma bulldoze_occupied:
  assumes "wf_city c" "getTile c (Some x) (Some y) = Inr (Some t)" "building t = Some b"
  shows "\<exists>c'. bulldoze c (Some x) (Some y) = Inr c' \<and>
           money c' = money c + (if type b = road then 50 else if type b = residential then 250 else 0) \<and>
           getTile c' (Some x) (Some y) = Inr (Some (t\<lparr>building := None\<rparr>)) \<and>
           wf_city c' \<and> city_size c' = city_size c"
proof -
  from getTile_Some_inside [OF assms(1,2)]
  have inside: "0 \<le> x" "x < city_size c" "0 \<le> y" "y < city_size c"
    and t: "t = tiles c ! nat x ! nat y" by auto
  define c1 where "c1 = (if type b = road
                     then emit [graph_updateTile x y None,
                                ui_notify ''moneyGive'' ''Estrada Destruida: +50$'']
                            (c\<lparr>money := money c + 50\<rparr>)
                     else if type b = residential
                     then (emit [ui_notify ''moneyGive'' ''Edificio Destruido: +250$''] c)
                            \<lparr>money := money c + 250\<rparr>
                     else c)"
  define c2 where "c2 = emit [ui_soundEffect ''bulldoze'', building_dispose x y] c1"
  define c3 where "c3 = setBuilding c2 x y None"
  define c4 where "c4 = emit [tile_refreshView x y] c3"
  have c1: "wf_city c1" "city_size c1 = city_size c" "tiles c1 = tiles c"
    "money c1 = money c + (if type b = road then 50 else if type b = residential then 250 else 0)"
    using assms(1) by (simp_all add: c1_def)
  have c2: "wf_city c2" "city_size c2 = city_size c" "tiles c2 = tiles c" "money c2 = money c1"
    using c1 by (simp_all add: c2_def)
  have c3: "wf_city c3" "city_size c3 = city_size c" "money c3 = money c1"
    using c2 by (simp_all add: c3_def wf_city_setBuilding)
  have tile3: "tiles c3 ! nat x ! nat y = t\<lparr>building := None\<rparr>"
    using tiles_setBuilding_same [of c2 x y None] c2 inside t by (simp add: c3_def)
  have c4: "wf_city c4" "city_size c4 = city_size c" "money c4 = money c1"
    "tiles c4 = tiles c3"
    using c3 by (simp_all add: c4_def)
  obtain es where es: "refreshNeighbors c4 x y = Inr (emit es c4)"
    using refreshNeighbors_wf [OF c4(1)] by blast
  have run: "bulldoze c (Some x) (Some y) = Inr (emit es c4)"
    using assms(2,3) es
    by (simp add: bulldoze_def Let_def c1_def c2_def c3_def c4_def)
  have "getTile (emit es c4) (Some x) (Some y) = Inr (Some (tiles c4 ! nat x ! nat y))"
    using getTile_inside [of c4 x y] c4 inside by simp
  then have "getTile (emit es c4) (Some x) (Some y) = Inr (Some (t\<lparr>building := None\<rparr>))"
    using tile3 c4 by simp
  then show ?thesis
    using run c4 c1 by simp
qed

lemma destroy_residential:
  assumes "wf_city c" "getTile c (Some x) (Some y) = Inr (Some t)" "building t = Some b"
    "type b = residential"
  shows "\<exists>c'. destroy c (Some x) (Some y) = Inr c' \<and> money c' = money c \<and>
           getTile c' (Some x) (Some y) = Inr (Some (t\<lparr>building := None\<rparr>)) \<and>
           wf_city c' \<and> city_size c' = city_size c"
proof -
  from getTile_Some_inside [OF assms(1,2)]
  have inside: "0 \<le> x" "x < city_size c" "0 \<le> y" "y < city_size c"
    and t: "t = tiles c ! nat x ! nat y" by auto
  define c1 where "c1 = emit [graph_updateTile x y None,
                            ui_notify ''error'' ''Edificio Explodido!'',
                            ui_notify ''error'' ''Residentes Nao Sobreviveram!'',
                            ui_soundEffect ''explosion'',
                            building_dispose x y] c"
  define c2 where "c2 = setBuilding c1 x y None"
  define c3 where "c3 = emit [tile_refreshView x y] c2"
  have c1: "wf_city c1" "city_size c1 = city_size c" "tiles c1 = tiles c" "money c1 = money c"
    using assms(1) by (simp_all add: c1_def)
  have c2: "wf_city c2" "city_size c2 = city_size c" "money c2 = money c"
    using c1 by (simp_all add: c2_def wf_city_setBuilding)
  have tile2: "tiles c2 ! nat x ! nat y = t\<lparr>building := None\<rparr>"
    using tiles_setBuilding_same [of c1 x y None] c1 inside t by (simp add: c2_def)
  have c3: "wf_city c3" "city_size c3 = city_size c" "money c3 = money c" "tiles c3 = tiles c2"
    using c2 by (simp_all add: c3_def)
  obtain es where es: "refreshNeighbors c3 x y = Inr (emit es c3)"
    using refreshNeighbors_wf [OF c3(1)] by blast
  have run: "destroy c (Some x) (Some y) = Inr (emit es c3)"
    using assms(2,3,4) es
    by (simp add: destroy_def Let_def c1_def c2_def c3_def)
  have "getTile (emit es c3) (Some x) (Some y) = Inr (Some (tiles c3 ! nat x ! nat y))"
    using getTile_inside [of c3 x y] c3 inside by simp
  then have "getTile (emit es c3) (Some x) (Some y) = Inr (Some (t\<lparr>building := None\<rparr>))"
    using tile2 c3 by simp
  then show ?thesis
    using run c3 by simp
qed

lemma wf_city_place_all: "wf_city c \<Longrightarrow> wf_city (place_all c bs)"
  unfolding place_all_def
  by (induction bs arbitrary: c) (auto simp add: wf_city_setBuilding)

lemma wf_city_small_town: "wf_city small_town"
  unfolding small_town_def by (rule wf_city_place_all) (rule wf_city_new_City)

lemma wf_city_big_town: "wf_city big_town"
  unfolding big_town_def by (rule wf_city_place_all) (rule wf_city_new_City)

lemma tiles_small_town:
  "tiles small_town =
     [[\<lparr>tile_x = 0, tile_y = 0, tile_id = 0, building = Some (house 12)\<rparr>,
       \<lparr>tile_x = 0, tile_y = 1, tile_id = 1, building = Some (house 12)\<rparr>],
      [\<lparr>tile_x = 1, tile_y = 0, tile_id = 2, building = Some (house 12)\<rparr>,
       \<lparr>tile_x = 1, tile_y = 1, tile_id = 3, building = Some street\<rparr>]]"
  by (simp add: small_town_def place_all_def setBuilding_def new_City_def new_Tile_def
      upt_conv_Cons)

lemma tiles_big_town:
  "tiles big_town =
     [[\<lparr>tile_x = 0, tile_y = 0, tile_id = 0, building = Some (house 7)\<rparr>,
       \<lparr>tile_x = 0, tile_y = 1, tile_id = 1, building = Some (house 7)\<rparr>,
       \<lparr>tile_x = 0, tile_y = 2, tile_id = 2, building = Some (house 7)\<rparr>],
      [\<lparr>tile_x = 1, tile_y = 0, tile_id = 3, building = Some (house 7)\<rparr>,
       \<lparr>tile_x = 1, tile_y = 1, tile_id = 4, building = Some (house 7)\<rparr>,
       \<lparr>tile_x = 1, tile_y = 2, tile_id = 5, building = Some street\<rparr>],
      [\<lparr>tile_x = 2, tile_y = 0, tile_id = 6, building = None\<rparr>,
       \<lparr>tile_x = 2, tile_y = 1, tile_id = 7, building = None\<rparr>,
       \<lparr>tile_x = 2, tile_y = 2, tile_id = 8, building = None\<rparr>]]"
  by (simp add: big_town_def place_all_def setBuilding_def new_City_def new_Tile_def
      upt_conv_Cons)

lemma place_all_fields [simp]:
  "city_size (place_all c bs) = city_size c" "money (place_all c bs) = money c"
  "simTime (place_all c bs) = simTime c" "level (place_all c bs) = level c"
  "levels (place_all c bs) = levels c" "effects (place_all c bs) = effects c"
  unfolding place_all_def
  by (induction bs arbitrary: c) (auto simp add: setBuilding_def)

lemma small_town_fields [simp]:
  "city_size small_town = 2" "money small_town = 0" "simTime small_town = 0"
  "level small_town = 1" "levels small_town = initial_levels"
  by (simp_all add: small_town_def new_City_def)

lemma big_town_fields [simp]:
  "city_size big_town = 3" "money big_town = 0" "simTime big_town = 0"
  "level big_town = 1" "levels big_town = initial_levels"
  by (simp_all add: big_town_def new_City_def)

lemma population_column_wf:
  assumes "wf_city c" "0 \<le> x" "x < city_size c"
  shows "\<forall>y \<in> set ys. 0 \<le> y \<and> y < city_size c \<Longrightarrow> \<exists>p'. population_column c x ys p = Inr p'"
proof (induction ys arbitrary: p)
  case Nil
  then show ?case by simp
next
  case (Cons y ys)
  then have "getTile c (Some x) (Some y) = Inr (Some (tiles c ! nat x ! nat y))"
    using getTile_inside [OF assms(1,2,3), of y] by simp
  then show ?case using Cons by simp
qed

lemma population_rows_wf:
  assumes "wf_city c"
  shows "\<forall>x \<in> set xs. 0 \<le> x \<and> x < city_size c \<Longrightarrow> \<exists>p'. population_rows c xs p = Inr p'"
proof (induction xs arbitrary: p)
  case Nil
  then show ?case by simp
next
  case (Cons x xs)
  then have "0 \<le> x" "x < city_size c" by simp_all
  from population_column_wf [OF assms this, of "[0..city_size c - 1]" p]
  obtain p' where "population_column c x [0..city_size c - 1] p = Inr p'" by auto
  then show ?case using Cons by simp
qed

lemma population_wf: "wf_city c \<Longrightarrow> \<exists>p. population c = Inr p"
  unfolding population_def by (rule population_rows_wf) auto

lemma check_mission_returns:
  "population c = Inr p \<Longrightarrow> \<exists>m'. check_mission c bc rc m = Inr m'"
  by (simp add: check_mission_def)

lemma check_mission_cases:
  "check_mission c bc rc m = Inr m' \<Longrightarrow> m' = m \<or> m' = m\<lparr>mdone := True\<rparr>"
  by (auto simp add: check_mission_def split: if_splits sum.splits)

lemma check_missions_returns:
  assumes "population c = Inr p"
  shows "\<exists>ms' k. check_missions c bc rc ms = Inr (ms', k)"
proof (induction ms)
  case Nil
  then show ?case by simp
next
  case (Cons m ms)
  obtain m' where "check_mission c bc rc m = Inr m'"
    using check_mission_returns [OF assms] by blast
  then show ?case using Cons by auto
qed

lemma check_missions_mono:
  "check_missions c bc rc ms = Inr (ms', k) \<Longrightarrow>
     length ms' = length ms \<and>
     (\<forall>i < length ms. ms' ! i = ms ! i \<or> ms' ! i = (ms ! i)\<lparr>mdone := True\<rparr>)"
proof (induction ms arbitrary: ms' k)
  case Nil
  then show ?case by simp
next
  case (Cons m ms)
  from Cons.prems obtain m' rest k' where
    m': "check_mission c bc rc m = Inr m'" and
    rest: "check_missions c bc rc ms = Inr (rest, k')" and
    ms': "ms' = m' # rest"
    by (auto split: sum.splits)
  from Cons.IH [OF rest] check_mission_cases [OF m'] ms'
  show ?case by (auto simp add: nth_Cons split: nat.splits)
qed

lemma simulate_missions_result:
  assumes "simulate_missions c bc rc = Inr c'"
  shows "simTime c' = simTime c + 1 \<and>
         (\<exists>ms ms' k. levels c (level c) = Some ms \<and> check_missions c bc rc ms = Inr (ms', k) \<and>
            levels c' = (levels c)(level c \<mapsto> ms'))"
  using assms
  by (auto simp add: simulate_missions_def Let_def split: option.splits sum.splits if_splits)

lemma simulate_missions_returns:
  assumes "levels c (level c) = Some ms" "population c = Inr p"
  shows "\<exists>c'. simulate_missions c bc rc = Inr c'"
proof -
  obtain ms' k where "check_missions c bc rc ms = Inr (ms', k)"
    using check_missions_returns [OF assms(2)] by blast
  then show ?thesis using assms(1) by (simp add: simulate_missions_def Let_def)
qed

lemma simulate_column_inv:
  assumes hook: "\<And>t c. I c \<Longrightarrow> I (tile_simulate t c)"
    and I_wf: "\<And>c. I c \<Longrightarrow> wf_city c \<and> city_size c = n"
    and x: "0 \<le> x" "x < n"
  shows "I c \<Longrightarrow> 0 \<le> y \<Longrightarrow>
    \<exists>c' k'. simulate_column tile_simulate x y c k = Some (Inr (c', k')) \<and> I c'"
proof (induction "nat (n - y)" arbitrary: y c k)
  case 0
  then have "\<not> y < city_size c" using I_wf [of c] by simp
  then have "simulate_column tile_simulate x y c k = Some (Inr (c, k))"
    by (subst simulate_column.simps) simp
  then show ?case using "0.prems" by simp
next
  case (Suc m)
  have c: "wf_city c" "city_size c = n" using I_wf [OF Suc.prems(1)] by simp_all
  have y: "y < n" using Suc.hyps(2) by simp
  let ?t = "tiles c ! nat x ! nat y"
  have tile: "getTile c (Some x) (Some y) = Inr (Some ?t)"
    using getTile_inside [of c x y] c x y Suc.prems(2) by simp
  have step: "simulate_column tile_simulate x y c k =
      simulate_column tile_simulate x (y + 1) (tile_simulate ?t c) (tally ?t k)"
    using y c tile by (subst simulate_column.simps) simp
  have "m = nat (n - (y + 1))" using Suc.hyps(2) by simp
  from Suc.hyps(1) [OF this hook [OF Suc.prems(1)], of ?t "tally ?t k"] Suc.prems(2)
  show ?case by (simp add: step)
qed

lemma simulate_rows_inv:
  assumes hook: "\<And>t c. I c \<Longrightarrow> I (tile_simulate t c)"
    and I_wf: "\<And>c. I c \<Longrightarrow> wf_city c \<and> city_size c = n"
  shows "I c \<Longrightarrow> 0 \<le> x \<Longrightarrow>
    \<exists>c' k'. simulate_rows tile_simulate x c k = Some (Inr (c', k')) \<and> I c'"
proof (induction "nat (n - x)" arbitrary: x c k)
  case 0
  then have "\<not> x < city_size c" using I_wf [of c] by simp
  then have "simulate_rows tile_simulate x c k = Some (Inr (c, k))"
    by (subst simulate_rows.simps) simp
  then show ?case using "0.prems" by simp
next
  case (Suc m)
  have c: "wf_city c" "city_size c = n" using I_wf [OF Suc.prems(1)] by simp_all
  have x: "x < n" using Suc.hyps(2) by simp
  obtain c1 k1 where col: "simulate_column tile_simulate x 0 c k = Some (Inr (c1, k1))" and "I c1"
    using simulate_column_inv [of I tile_simulate n x c 0 k] hook I_wf Suc.prems x by blast
  have step: "simulate_rows tile_simulate x c k = simulate_rows tile_simulate (x + 1) c1 k1"
    using x c col by (subst simulate_rows.simps) simp
  have "m = nat (n - (x + 1))" using Suc.hyps(2) by simp
  from Suc.hyps(1) [OF this \<open>I c1\<close>, of k1] Suc.prems(2)
  show ?case by (simp add: step)
qed

lemma fold_services_inv:
  assumes "\<And>h c. h \<in> set services \<Longrightarrow> I c \<Longrightarrow> I (h c)"
  shows "I c \<Longrightarrow> I (fold (\<lambda>service. service) services c)"
  using assms by (induction services arbitrary: c) auto

lemma simulate_steps_inv:
  assumes service: "\<And>h c. h \<in> set services \<Longrightarrow> I c \<Longrightarrow> I (h c)"
    and hook: "\<And>t c. I c \<Longrightarrow> I (tile_simulate t c)"
    and I_wf: "\<And>c. I c \<Longrightarrow> wf_city c \<and> city_size c = n"
  shows "I c \<Longrightarrow>
    \<exists>c' k'. simulate_steps services tile_simulate steps c k = Some (Inr (c', k')) \<and> I c'"
proof (induction steps arbitrary: c k)
  case 0
  then show ?case by simp
next
  case (Suc steps)
  have "I (fold (\<lambda>service. service) services c)"
    using fold_services_inv [of services I c] service Suc.prems by blast
  then obtain c1 k1 where
    rows: "simulate_rows tile_simulate 0 (fold (\<lambda>service. service) services c) k
             = Some (Inr (c1, k1))" and "I c1"
    using simulate_rows_inv [of I tile_simulate n _ 0 k] hook I_wf by blast
  from Suc.IH [OF \<open>I c1\<close>, of k1] rows show ?case by simp
qed

text \<open>The state after the step loop, for hooks that respect the frame.\<close>

lemma simulate_steps_frame:
  assumes "hooks_ok services tile_simulate" "wf_city c"
  shows "\<exists>c' k'. simulate_steps services tile_simulate steps c k = Some (Inr (c', k')) \<and>
           wf_city c' \<and> city_size c' = city_size c \<and> simTime c' = simTime c \<and>
           level c' = level c \<and> levels c' = levels c"
proof -
  define I where "I = (\<lambda>c'. wf_city c' \<and> city_size c' = city_size c \<and> simTime c' = simTime c \<and>
           level c' = level c \<and> levels c' = levels c)"
  have service: "I (h c')" if "h \<in> set services" "I c'" for h c'
    using assms(1) that by (simp add: I_def hooks_ok_def hook_frame_def)
  have hook: "I (tile_simulate t c')" if "I c'" for t c'
    using assms(1) that by (simp add: I_def hooks_ok_def hook_frame_def)
  have I_wf: "wf_city c' \<and> city_size c' = city_size c" if "I c'" for c'
    using that by (simp add: I_def)
  have "I c" using assms(2) by (simp add: I_def)
  then have "\<exists>c' k'. simulate_steps services tile_simulate steps c k = Some (Inr (c', k')) \<and> I c'"
    using simulate_steps_inv [where I = I and n = "city_size c" and services = services
        and tile_simulate = tile_simulate and c = c and steps = steps and k = k]
      service hook I_wf
    by blast
  then show ?thesis by (simp add: I_def)
qed

lemma simulate_returns:
  assumes "hooks_ok services tile_simulate" "wf_city c" "levels c (level c) \<noteq> None"
  shows "\<exists>c1 bc rc c'. simulate_steps services tile_simulate (nat steps) c (0, 0) = Some (Inr (c1, bc, rc)) \<and>
           levels c1 = levels c \<and> level c1 = level c \<and> simTime c1 = simTime c \<and>
           simulate_missions c1 bc rc = Inr c' \<and>
           simulate services tile_simulate steps c = Some (Inr c')"
proof -
  obtain c1 k1 where steps: "simulate_steps services tile_simulate (nat steps) c (0, 0) = Some (Inr (c1, k1))"
    and c1: "wf_city c1" "simTime c1 = simTime c" "level c1 = level c" "levels c1 = levels c"
    using simulate_steps_frame [OF assms(1,2), of "nat steps" "(0, 0)"] by blast
  obtain bc rc where k1: "k1 = (bc, rc)" by (cases k1)
  obtain p where p: "population c1 = Inr p" using population_wf [OF c1(1)] by blast
  obtain ms where ms: "levels c1 (level c1) = Some ms" using assms(3) c1 by auto
  obtain c' where c': "simulate_missions c1 bc rc = Inr c'"
    using simulate_missions_returns [OF ms p] by blast
  have "simulate services tile_simulate steps c = Some (Inr c')"
    using steps k1 c' by (simp add: simulate_def)
  then show ?thesis using steps k1 c1 c' by blast
qed

lemmas scan_eval = getTile_def js_index_def tally_def simulate_column.simps
  simulate_rows.simps house_def street_def idle_hook_def

lemma scan_small_town:
  "simulate_rows idle_hook 0 small_town k = Some (Inr (small_town, fst k + 3, snd k + 1))"
  by (cases k) (simp add: scan_eval tiles_small_town)

lemma scan_big_town:
  "simulate_rows idle_hook 0 big_town k = Some (Inr (big_town, fst k + 5, snd k + 1))"
  by (cases k) (simp add: scan_eval tiles_big_town)

lemma scan_new_City_2:
  "simulate_rows idle_hook 0 (new_City 2 m) k = Some (Inr (new_City 2 m, k))"
  by (cases k) (simp add: scan_eval new_City_def new_Tile_def upt_conv_Cons)

lemma population_small_town: "population small_town = Inr 36"
  by (simp add: population_def getTile_def js_index_def tiles_small_town residents_count_def
      house_def street_def upto.simps)

lemma population_big_town: "population big_town = Inr 35"
  by (simp add: population_def getTile_def js_index_def tiles_big_town residents_count_def
      house_def street_def upto.simps)

lemma population_new_City_2: "population (new_City 2 m) = Inr 0"
  by (simp add: population_def getTile_def js_index_def new_City_def new_Tile_def
      residents_count_def upto.simps upt_conv_Cons)

lemma hooks_ok_none: "hooks_ok [] idle_hook"
  by (simp add: hooks_ok_def hook_frame_def idle_hook_def)

section \<open>Building economy\<close>

text \<open>
  Claim C5.  \<open>hasMoneyForBuild\<close> returns true exactly when the building type has a
  scheduled cost (500 for residential, 100 for road) and the treasury is at least that
  cost; it then deducts exactly the cost.  Whenever it returns false the city is
  unchanged, and it returns false for every type other than residential and road.
\<close>

theorem hasMoneyForBuild_schedule:
  "(fst (hasMoneyForBuild c bt) \<longleftrightarrow> (\<exists>k. scheduled_cost bt = Some k \<and> k \<le> money c)) \<and>
   (\<forall>k. scheduled_cost bt = Some k \<and> k \<le> money c \<longrightarrow>
        snd (hasMoneyForBuild c bt) = c\<lparr>money := money c - k\<rparr>) \<and>
   (\<not> fst (hasMoneyForBuild c bt) \<longrightarrow> snd (hasMoneyForBuild c bt) = c) \<and>
   (bt \<noteq> residential \<and> bt \<noteq> road \<longrightarrow> hasMoneyForBuild c bt = (False, c))"
  by (simp add: hasMoneyForBuild_def scheduled_cost_def)

theorem hasMoneyForBuild_schedule_witness:
  "hasMoneyForBuild (new_City 2 600) residential = (True, new_City 2 100) \<and>
   hasMoneyForBuild (new_City 2 100) road = (True, new_City 2 0) \<and>
   hasMoneyForBuild (new_City 2 99) road = (False, new_City 2 99) \<and>
   hasMoneyForBuild (new_City 2 600) (other ''commercial'') = (False, new_City 2 600)"
  using hasMoneyForBuild_schedule [of "new_City 2 600" residential]
    hasMoneyForBuild_schedule [of "new_City 2 100" road]
    hasMoneyForBuild_schedule [of "new_City 2 99" road]
    hasMoneyForBuild_schedule [of "new_City 2 600" "other ''commercial''"]
  by (simp add: scheduled_cost_def new_City_def prod_eq_iff)

text \<open>
  Claim C3.  Outside the bounds, or with an undefined coordinate, \<open>getTile\<close> yields
  \<open>null\<close>, and \<open>bulldoze\<close> and \<open>destroy\<close> read \<open>tile.building\<close> from it: they throw a
  \<open>TypeError\<close> instead of returning.  \<open>placeBuilding\<close>, which tests \<open>tile\<close> first, returns
  with the city unchanged at the same coordinates.
\<close>

theorem bulldoze_destroy_out_of_bounds_throw:
  "bulldoze (new_City 2 600) (Some (- 1)) (Some 0) = Inl TypeError \<and>
   destroy (new_City 2 600) (Some (- 1)) (Some 0) = Inl TypeError \<and>
   bulldoze (new_City 2 600) (Some 0) (Some 2) = Inl TypeError \<and>
   destroy (new_City 2 600) None (Some 0) = Inl TypeError \<and>
   placeBuilding plain_building (new_City 2 600) (Some (- 1)) (Some 0) road = Inr (new_City 2 600)"
  by (simp add: bulldoze_def destroy_def placeBuilding_def getTile_def new_City_def)

text \<open>
  Claim C6.  On a parcel inside the grid, \<open>bulldoze\<close> changes nothing when the parcel is
  empty, credits exactly 50 and clears the parcel when it holds a road, and credits
  exactly 250 and clears the parcel when it holds a residential building.
\<close>

theorem bulldoze_refund:
  assumes "wf_city c" and "getTile c (Some x) (Some y) = Inr (Some t)"
  shows "(building t = None \<longrightarrow> bulldoze c (Some x) (Some y) = Inr c) \<and>
         (\<forall>b. building t = Some b \<and> type b = road \<longrightarrow>
            (\<exists>c'. bulldoze c (Some x) (Some y) = Inr c' \<and> money c' = money c + 50 \<and>
                  getTile c' (Some x) (Some y) = Inr (Some (t\<lparr>building := None\<rparr>)))) \<and>
         (\<forall>b. building t = Some b \<and> type b = residential \<longrightarrow>
            (\<exists>c'. bulldoze c (Some x) (Some y) = Inr c' \<and> money c' = money c + 250 \<and>
                  getTile c' (Some x) (Some y) = Inr (Some (t\<lparr>building := None\<rparr>))))"
proof (intro conjI allI impI)
  assume "building t = None"
  then show "bulldoze c (Some x) (Some y) = Inr c"
    using assms(2) by (simp add: bulldoze_def)
next
  fix b assume b: "building t = Some b \<and> type b = road"
  with bulldoze_occupied [OF assms, of b]
  show "\<exists>c'. bulldoze c (Some x) (Some y) = Inr c' \<and> money c' = money c + 50 \<and>
                  getTile c' (Some x) (Some y) = Inr (Some (t\<lparr>building := None\<rparr>))"
    by auto
next
  fix b assume b: "building t = Some b \<and> type b = residential"
  with bulldoze_occupied [OF assms, of b]
  show "\<exists>c'. bulldoze c (Some x) (Some y) = Inr c' \<and> money c' = money c + 250 \<and>
                  getTile c' (Some x) (Some y) = Inr (Some (t\<lparr>building := None\<rparr>))"
    by auto
qed

theorem bulldoze_refund_witness:
  "wf_city small_town \<and> wf_city big_town \<and>
   map_sum id money (bulldoze small_town (Some 1) (Some 1)) = Inr (money small_town + 50) \<and>
   map_sum id money (bulldoze small_town (Some 0) (Some 1)) = Inr (money small_town + 250) \<and>
   bulldoze big_town (Some 2) (Some 2) = Inr big_town"
proof -
  have road_tile: "getTile small_town (Some 1) (Some 1) =
      Inr (Some \<lparr>tile_x = 1, tile_y = 1, tile_id = 3, building = Some street\<rparr>)"
    by (simp add: getTile_def js_index_def tiles_small_town)
  have house_tile: "getTile small_town (Some 0) (Some 1) =
      Inr (Some \<lparr>tile_x = 0, tile_y = 1, tile_id = 1, building = Some (house 12)\<rparr>)"
    by (simp add: getTile_def js_index_def tiles_small_town)
  have empty_tile: "getTile big_town (Some 2) (Some 2) =
      Inr (Some \<lparr>tile_x = 2, tile_y = 2, tile_id = 8, building = None\<rparr>)"
    by (simp add: getTile_def js_index_def tiles_big_town)
  show ?thesis
    using bulldoze_refund [OF wf_city_small_town road_tile]
      bulldoze_refund [OF wf_city_small_town house_tile]
      bulldoze_refund [OF wf_city_big_town empty_tile]
      wf_city_small_town wf_city_big_town
    by (auto simp add: street_def house_def)
qed

text \<open>
  Claim C7.  On a parcel inside the grid, \<open>destroy\<close> leaves the whole city unchanged when
  the parcel holds a road or any other non-residential building, and clears the
  parcel with the treasury unchanged when it holds a residential building.
\<close>

theorem destroy_residential_only:
  assumes "wf_city c" and "getTile c (Some x) (Some y) = Inr (Some t)"
  shows "(\<forall>b. building t = Some b \<and> type b \<noteq> residential \<longrightarrow>
            destroy c (Some x) (Some y) = Inr c) \<and>
         (\<forall>b. building t = Some b \<and> type b = residential \<longrightarrow>
            (\<exists>c'. destroy c (Some x) (Some y) = Inr c' \<and> money c' = money c \<and>
                  getTile c' (Some x) (Some y) = Inr (Some (t\<lparr>building := None\<rparr>))))"
proof (intro conjI allI impI)
  fix b assume "building t = Some b \<and> type b \<noteq> residential"
  then show "destroy c (Some x) (Some y) = Inr c"
    using assms(2) by (simp add: destroy_def)
next
  fix b assume b: "building t = Some b \<and> type b = residential"
  with destroy_residential [OF assms, of b]
  show "\<exists>c'. destroy c (Some x) (Some y) = Inr c' \<and> money c' = money c \<and>
                  getTile c' (Some x) (Some y) = Inr (Some (t\<lparr>building := None\<rparr>))"
    by auto
qed


theorem destroy_residential_only_witness:
  "wf_city small_town \<and>
   destroy small_town (Some 1) (Some 1) = Inr small_town \<and>
   map_sum id money (destroy small_town (Some 0) (Some 1)) = Inr (money small_town) \<and>
   map_sum id (\<lambda>c. getTile c (Some 0) (Some 1)) (destroy small_town (Some 0) (Some 1)) =
     Inr (Inr (Some \<lparr>tile_x = 0, tile_y = 1, tile_id = 1, building = None\<rparr>))"
proof -
  have road_tile: "getTile small_town (Some 1) (Some 1) =
      Inr (Some \<lparr>tile_x = 1, tile_y = 1, tile_id = 3, building = Some street\<rparr>)"
    by (simp add: getTile_def js_index_def tiles_small_town)
  have house_tile: "getTile small_town (Some 0) (Some 1) =
      Inr (Some \<lparr>tile_x = 0, tile_y = 1, tile_id = 1, building = Some (house 12)\<rparr>)"
    by (simp add: getTile_def js_index_def tiles_small_town)
  show ?thesis
    using destroy_residential_only [OF wf_city_small_town road_tile]
      destroy_residential_only [OF wf_city_small_town house_tile]
      wf_city_small_town
    by (auto simp add: street_def house_def)
qed

section \<open>Simulation steps and missions\<close>

text \<open>
  Claim C1.  The counters \<open>buildCount\<close> and \<open>roadCount\<close> are initialised before the
  \<open>while\<close> loop and never reset, so they add up over the steps of a call.  On a city of
  three residential buildings and one road, one step tallies \<open>(3, 1)\<close> and two steps
  tally \<open>(6, 2)\<close>, although the last scan alone finds \<open>(3, 1)\<close>: \<open>simulate(2)\<close> marks the
  mission of five buildings as done and levels the city up, \<open>simulate(1)\<close> does neither.
\<close>

theorem tallies_accumulate_across_steps:
  "simulate_steps [] idle_hook 1 small_town (0, 0) = Some (Inr (small_town, 3, 1)) \<and>
   simulate_steps [] idle_hook 2 small_town (0, 0) = Some (Inr (small_town, 6, 2)) \<and>
   map_option (map_sum id (\<lambda>c. (map mdone (the (levels c 1)), level c, money c)))
     (simulate [] idle_hook 1 small_town) = Some (Inr ([True, False, True], 1, 0)) \<and>
   map_option (map_sum id (\<lambda>c. (map mdone (the (levels c 1)), level c, money c)))
     (simulate [] idle_hook 2 small_town) = Some (Inr ([True, True, True], 2, 2500))"
  by (simp add: scan_small_town numeral_2_eq_2 simulate_def simulate_missions_def
      check_mission_def truthy_def population_small_town initial_levels_def level1_missions_def
      Let_def)

text \<open>
  Claim C2, as stated, fails: \<open>this.simTime++\<close> stands after the \<open>while\<close> loop, so a call
  with two steps on a fresh city moves the clock from 0 to 1, not to 2.
\<close>

theorem simTime_two_steps_counterexample:
  "simTime (new_City 2 600) = 0 \<and>
   map_option (map_sum id simTime) (simulate [] idle_hook 2 (new_City 2 600)) = Some (Inr 1) \<and>
   map_option (map_sum id simTime) (simulate [] idle_hook 2 (new_City 2 600)) \<noteq>
     Some (Inr (simTime (new_City 2 600) + 2))"
proof -
  have "simulate_steps [] idle_hook 2 (new_City 2 600) (0, 0) = Some (Inr (new_City 2 600, 0, 0))"
    by (simp add: scan_new_City_2 numeral_2_eq_2)
  then show ?thesis
    by (simp add: simulate_def simulate_missions_def check_mission_def truthy_def
        population_new_City_2 initial_levels_def level1_missions_def Let_def)
qed

text \<open>
  Claim C2, amended.  For hooks that respect the frame, on a city that satisfies the
  grid invariant and whose level has an entry in \<open>levels\<close>, every call \<open>simulate(steps)\<close>
  returns and has advanced the clock by exactly 1, whatever \<open>steps\<close> is.
\<close>

theorem simTime_once_per_call:
  assumes "hooks_ok services tile_simulate" and "wf_city c" and "levels c (level c) \<noteq> None"
  shows "\<exists>c'. simulate services tile_simulate steps c = Some (Inr c') \<and> simTime c' = simTime c + 1"
proof -
  from simulate_returns [OF assms, of steps] obtain c1 bc rc c' where
    "simTime c1 = simTime c" "simulate_missions c1 bc rc = Inr c'"
    "simulate services tile_simulate steps c = Some (Inr c')"
    by blast
  then show ?thesis using simulate_missions_result [of c1 bc rc c'] by simp
qed

theorem simTime_once_per_call_witness:
  "hooks_ok [grant_service] idle_hook \<and> wf_city big_town \<and>
   levels big_town (level big_town) \<noteq> None \<and>
   map_option (map_sum id simTime)
     (simulate [grant_service] idle_hook 3 big_town) =
     Some (Inr (simTime big_town + 1))"
proof -
  have h: "hooks_ok [grant_service] idle_hook"
    by (simp add: hooks_ok_def hook_frame_def idle_hook_def grant_service_def)
  have l: "levels big_town (level big_town) \<noteq> None"
    by (simp add: initial_levels_def)
  show ?thesis
    using simTime_once_per_call [OF h wf_city_big_town l, of 3] h l wf_city_big_town
    by auto
qed

text \<open>
  Claim C4.  When the step loop of a call leaves a city at level 1 whose level-1
  missions carry the thresholds of the source (35 residents, 5 buildings, 1 road), with
  a population of at least 35 and tallies \<open>buildCount \<ge> 5\<close> and \<open>roadCount \<ge> 1\<close>, the call
  returns with level 2 and with the treasury exactly 2500 above the treasury the step
  loop left.
\<close>

theorem level_up_credit:
  assumes "simulate_steps services tile_simulate (nat steps) c (0, 0) = Some (Inr (c1, buildCount, roadCount))"
    and "level c1 = 1" and "levels c1 1 = Some ms"
    and "map (\<lambda>m. m\<lparr>mdone := False\<rparr>) ms = level1_missions"
    and "population c1 = Inr p" and "p \<ge> 35" and "buildCount \<ge> 5" and "roadCount \<ge> 1"
  shows "\<exists>c'. simulate services tile_simulate steps c = Some (Inr c') \<and> level c' = 2 \<and>
           money c' = money c1 + 2500"
proof -
  from assms(4) obtain m1 m2 m3 where ms: "ms = [m1, m2, m3]"
    and m1: "m1\<lparr>mdone := False\<rparr> = level1_missions ! 0"
    and m2: "m2\<lparr>mdone := False\<rparr> = level1_missions ! 1"
    and m3: "m3\<lparr>mdone := False\<rparr> = level1_missions ! 2"
    by (auto simp add: level1_missions_def map_eq_Cons_conv)
  have "citizens (m1\<lparr>mdone := False\<rparr>) = Some 35"
    unfolding m1 by (simp add: level1_missions_def)
  then have t1: "citizens m1 = Some 35" by simp
  have "citizens (m2\<lparr>mdone := False\<rparr>) = None \<and> buildings (m2\<lparr>mdone := False\<rparr>) = Some 5"
    unfolding m2 by (simp add: level1_missions_def)
  then have t2: "citizens m2 = None" "buildings m2 = Some 5" by simp_all
  have "citizens (m3\<lparr>mdone := False\<rparr>) = None \<and> buildings (m3\<lparr>mdone := False\<rparr>) = None \<and>
        road_m (m3\<lparr>mdone := False\<rparr>) = Some 1"
    unfolding m3 by (simp add: level1_missions_def)
  then have t3: "citizens m3 = None" "buildings m3 = None" "road_m m3 = Some 1" by simp_all
  have chk: "check_missions c1 buildCount roadCount ms =
      Inr ([m1\<lparr>mdone := True\<rparr>, m2\<lparr>mdone := True\<rparr>, m3\<lparr>mdone := True\<rparr>], 3)"
    using t1 t2 t3 assms(5,6,7,8) by (simp add: ms check_mission_def truthy_def)
  obtain c' where c': "simulate_missions c1 buildCount roadCount = Inr c'"
    and "level c' = 2" "money c' = money c1 + 2500"
    using assms(2,3) chk by (simp add: simulate_missions_def Let_def)
  then show ?thesis using assms(1) by (simp add: simulate_def)
qed

theorem level_up_credit_witness:
  "map_option (map_sum id (\<lambda>c. (level c, money c))) (simulate [] idle_hook 1 big_town) =
     Some (Inr (2, money big_town + 2500))"
proof -
  have steps: "simulate_steps [] idle_hook (nat 1) big_town (0, 0) = Some (Inr (big_town, 5, 1))"
    by (simp add: scan_big_town)
  have ms: "levels big_town 1 = Some level1_missions"
    by (simp add: initial_levels_def)
  have same: "map (\<lambda>m. m\<lparr>mdone := False\<rparr>) level1_missions = level1_missions"
    by (simp add: level1_missions_def)
  show ?thesis
    using level_up_credit [OF steps _ ms same population_big_town]
    by auto
qed

text \<open>
  Claim C9.  For hooks that respect the frame, a call of \<open>simulate\<close> that returns keeps
  every mission flag that was true before the call: the mission loop only ever assigns
  \<open>true\<close> to \<open>done\<close>, at any level and whatever the population and the tallies are.
\<close>

theorem mission_flags_monotonic:
  assumes "hooks_ok services tile_simulate" and "wf_city c"
    and "simulate services tile_simulate steps c = Some (Inr c')"
    and "levels c l = Some ms" and "i < length ms" and "mdone (ms ! i)"
  shows "\<exists>ms'. levels c' l = Some ms' \<and> length ms' = length ms \<and> mdone (ms' ! i)"
proof -
  obtain c1 k1 where steps: "simulate_steps services tile_simulate (nat steps) c (0, 0) = Some (Inr (c1, k1))"
    and c1: "level c1 = level c" "levels c1 = levels c"
    using simulate_steps_frame [OF assms(1,2), of "nat steps" "(0, 0)"] by blast
  obtain bc rc where k1: "k1 = (bc, rc)" by (cases k1)
  have run: "simulate_missions c1 bc rc = Inr c'"
    using assms(3) steps k1 by (simp add: simulate_def)
  from simulate_missions_result [OF run] obtain ms0 ms1 k where
    ms0: "levels c1 (level c1) = Some ms0" and
    chk: "check_missions c1 bc rc ms0 = Inr (ms1, k)" and
    lv: "levels c' = (levels c1)(level c1 \<mapsto> ms1)"
    by blast
  show ?thesis
  proof (cases "l = level c1")
    case True
    then have "ms0 = ms" using ms0 assms(4) c1 by simp
    with check_missions_mono [OF chk] assms(5,6)
    have "length ms1 = length ms" "mdone (ms1 ! i)" by auto
    then show ?thesis using lv True by simp
  next
    case False
    then show ?thesis using lv assms(4,5,6) c1 by simp
  qed
qed

theorem mission_flags_monotonic_witness:
  "hooks_ok [] idle_hook \<and> wf_city road_removed_city \<and>
   map_option (map_sum id (\<lambda>c. mdone (the (levels c 1) ! 2)))
     (simulate [] idle_hook 1 road_removed_city) = Some (Inr True)"
proof -
  have w: "wf_city road_removed_city"
    by (simp add: road_removed_city_def wf_city_new_City)
  have l: "levels road_removed_city (level road_removed_city) \<noteq> None"
    by (simp add: road_removed_city_def)
  obtain c' where run: "simulate [] idle_hook 1 road_removed_city = Some (Inr c')"
    using simulate_returns [OF hooks_ok_none w l, of 1] by blast
  have ms: "levels road_removed_city 1 =
      Some [level1_missions ! 0, level1_missions ! 1, (level1_missions ! 2)\<lparr>mdone := True\<rparr>]"
    by (simp add: road_removed_city_def)
  show ?thesis
    using mission_flags_monotonic [OF hooks_ok_none w run ms, of 2] run w hooks_ok_none
    by auto
qed

section \<open>Spatial search\<close>

lemma grid_tile:
  assumes "wf_city c" "0 \<le> x" "x < city_size c" "0 \<le> y" "y < city_size c"
  shows "tile_x (tiles c ! nat x ! nat y) = x" "tile_y (tiles c ! nat x ! nat y) = y"
    "in_grid c (tiles c ! nat x ! nat y)"
proof -
  have "nat x < nat (city_size c)" "nat y < nat (city_size c)" using assms by simp_all
  from wf_city_coords [OF assms(1) this] assms(2,4)
  show xy: "tile_x (tiles c ! nat x ! nat y) = x" "tile_y (tiles c ! nat x ! nat y) = y"
    by simp_all
  show "in_grid c (tiles c ! nat x ! nat y)"
    using assms xy by (simp add: in_grid_def)
qed

lemma getTile_in_grid:
  assumes "wf_city c" "getTile c x y = Inr (Some t)"
  shows "in_grid c t"
  using getTile_Some_inside [OF assms] grid_tile(3) [OF assms(1)] by auto

lemma finite_grid_ids: "finite (tile_id ` {t. in_grid c t})"
proof -
  let ?n = "nat (city_size c)"
  have "{t. in_grid c t} \<subseteq> (\<lambda>(i, j). tiles c ! i ! j) ` ({0..<?n} \<times> {0..<?n})"
  proof
    fix t assume "t \<in> {t. in_grid c t}"
    then have t: "0 \<le> tile_x t" "tile_x t < city_size c" "0 \<le> tile_y t" "tile_y t < city_size c"
      "tiles c ! nat (tile_x t) ! nat (tile_y t) = t"
      by (simp_all add: in_grid_def)
    then have "(nat (tile_x t), nat (tile_y t)) \<in> {0..<?n} \<times> {0..<?n}" by simp
    then have "(\<lambda>(i, j). tiles c ! i ! j) (nat (tile_x t), nat (tile_y t))
        \<in> (\<lambda>(i, j). tiles c ! i ! j) ` ({0..<?n} \<times> {0..<?n})"
      by (rule imageI)
    then show "t \<in> (\<lambda>(i, j). tiles c ! i ! j) ` ({0..<?n} \<times> {0..<?n})"
      using t(5) by simp
  qed
  then have "finite {t. in_grid c t}"
    by (rule finite_subset) simp
  then show ?thesis by simp
qed

lemma push_tile_Some:
  "push_tile (Inr ns) cond (Inr (Some t)) = Inr (if cond then ns @ [Some t] else ns)"
  by (simp add: push_tile_def)

lemma push_tile_False: "push_tile (Inr ns) False t = Inr ns"
  by (simp add: push_tile_def)

text \<open>The neighbours of a grid tile are grid tiles at distance 1.\<close>

lemma getTileNeighbors_grid:
  assumes "wf_city c" "in_grid c t"
  shows "\<exists>ns. getTileNeighbors c (tile_x t) (tile_y t) = Inr ns \<and>
           (\<forall>q \<in> set ns. \<exists>u. q = Some u \<and> in_grid c u \<and> distanceTo t u = 1)"
proof -
  let ?x = "tile_x t" and ?y = "tile_y t" and ?n = "city_size c"
  have t: "0 \<le> ?x" "?x < ?n" "0 \<le> ?y" "?y < ?n"
    using assms(2) by (simp_all add: in_grid_def)
  define near where "near q \<longleftrightarrow> (\<exists>u. q = Some u \<and> in_grid c u \<and> distanceTo t u = 1)" for q
  have step: "\<exists>ns'. push_tile (Inr ns) cond (getTile c (Some x) (Some y)) = Inr ns' \<and>
                (\<forall>q \<in> set ns'. near q)"
    if "\<forall>q \<in> set ns. near q"
      and "cond \<Longrightarrow> 0 \<le> x \<and> x < ?n \<and> 0 \<le> y \<and> y < ?n \<and> \<bar>?x - x\<bar> + \<bar>?y - y\<bar> = 1"
    for ns cond x y
  proof (cases cond)
    case False
    then show ?thesis using that(1) by (simp add: push_tile_False)
  next
    case True
    with that(2) have xy: "0 \<le> x" "x < ?n" "0 \<le> y" "y < ?n" and d: "\<bar>?x - x\<bar> + \<bar>?y - y\<bar> = 1"
      by simp_all
    let ?u = "tiles c ! nat x ! nat y"
    have "near (Some ?u)"
      using grid_tile [OF assms(1) xy] d by (simp add: near_def distanceTo_def)
    then show ?thesis
      using that(1) getTile_inside [OF assms(1) xy] by (simp add: push_tile_Some)
  qed
  obtain n1 where n1: "push_tile (Inr []) (?x > 0) (getTile c (Some (?x - 1)) (Some ?y)) = Inr n1"
    "\<forall>q \<in> set n1. near q"
    using step [of "[]" "?x > 0" "?x - 1" ?y] t by auto
  obtain n2 where n2: "push_tile (Inr n1) (?x < ?n - 1) (getTile c (Some (?x + 1)) (Some ?y)) = Inr n2"
    "\<forall>q \<in> set n2. near q"
    using step [OF n1(2), of "?x < ?n - 1" "?x + 1" ?y] t by auto
  obtain n3 where n3: "push_tile (Inr n2) (?y > 0) (getTile c (Some ?x) (Some (?y - 1))) = Inr n3"
    "\<forall>q \<in> set n3. near q"
    using step [OF n2(2), of "?y > 0" ?x "?y - 1"] t by auto
  obtain n4 where n4: "push_tile (Inr n3) (?y < ?n - 1) (getTile c (Some ?x) (Some (?y + 1))) = Inr n4"
    "\<forall>q \<in> set n4. near q"
    using step [OF n3(2), of "?y < ?n - 1" ?x "?y + 1"] t by auto
  have "getTileNeighbors c ?x ?y = Inr n4"
    by (simp add: getTileNeighbors_def n1 n2 n3 n4)
  then show ?thesis using n4(2) by (auto simp add: near_def)
qed


text \<open>
  The search returns: every expansion adds a new identity of the grid to \<open>visited\<close>,
  every other iteration shortens the queue.
\<close>

lemma findTile_search_returns:
  assumes "wf_city c"
  shows "\<forall>q \<in> set queue. \<exists>t. q = Some t \<and> in_grid c t \<Longrightarrow>
    \<exists>r. findTile_search c (Some s) f d visited queue = Some (Inr r) \<and>
         (\<forall>t. r = Some t \<longrightarrow> in_grid c t \<and> f t \<and> distanceTo s t \<le> d)"
proof (induction "(card (tile_id ` {t. in_grid c t} - visited), length queue)"
    arbitrary: visited queue rule: wf_induct_rule [OF wf_lex_prod [OF wf_less_than wf_less_than]])
  case 1
  let ?ids = "tile_id ` {t. in_grid c t}"
  show ?case
  proof (cases queue)
    case Nil
    then have "findTile_search c (Some s) f d visited queue = Some (Inr None)"
      by (subst findTile_search.simps) simp
    then show ?thesis by simp
  next
    case (Cons q rest)
    with "1.prems" obtain t where q: "q = Some t" and t: "in_grid c t"
      and rest: "\<forall>q \<in> set rest. \<exists>t. q = Some t \<and> in_grid c t"
      by auto
    show ?thesis
    proof (cases "tile_id t \<in> visited")
      case True
      then have step: "findTile_search c (Some s) f d visited queue =
          findTile_search c (Some s) f d visited rest"
        by (subst findTile_search.simps) (simp add: Cons q)
      have "((card (?ids - visited), length rest), (card (?ids - visited), length queue))
          \<in> less_than <*lex*> less_than"
        by (simp add: Cons)
      from "1.hyps" [OF this rest] show ?thesis by (simp add: step)
    next
      case False
      let ?V = "insert (tile_id t) visited"
      have "tile_id t \<in> ?ids - visited" using t False by simp
      then have "card (?ids - ?V) < card (?ids - visited)"
        using finite_grid_ids [of c]
        by (metis Diff_insert card_Diff1_less finite_Diff)
      then have smaller: "((card (?ids - ?V), length q'), (card (?ids - visited), length queue))
          \<in> less_than <*lex*> less_than" for q' :: "Tile option list"
        by simp
      show ?thesis
      proof (cases "distanceTo s t > d")
        case True
        with False have step: "findTile_search c (Some s) f d visited queue =
            findTile_search c (Some s) f d ?V rest"
          by (subst findTile_search.simps) (simp add: Cons q)
        from "1.hyps" [OF smaller rest] show ?thesis by (simp add: step)
      next
        case near: False
        obtain ns where ns: "getTileNeighbors c (tile_x t) (tile_y t) = Inr ns"
          and ns_grid: "\<forall>q \<in> set ns. \<exists>u. q = Some u \<and> in_grid c u"
          using getTileNeighbors_grid [OF assms t] by blast
        show ?thesis
        proof (cases "f t")
          case True
          with False near ns have "findTile_search c (Some s) f d visited queue = Some (Inr (Some t))"
            by (subst findTile_search.simps) (simp add: Cons q)
          then show ?thesis using t True near by simp
        next
          case no_match: False
          with False near ns have step: "findTile_search c (Some s) f d visited queue =
              findTile_search c (Some s) f d ?V (rest @ ns)"
            by (subst findTile_search.simps) (simp add: Cons q)
          have "\<forall>q \<in> set (rest @ ns). \<exists>t. q = Some t \<and> in_grid c t"
            using rest ns_grid by auto
          from "1.hyps" [OF smaller this] show ?thesis by (simp add: step)
        qed
      qed
    qed
  qed
qed


lemma findTile_start_absent:
  assumes "getTile c (fst start) (snd start) = Inr None"
  shows "findTile c start f d = Some (Inl TypeError)"
  using assms by (simp add: findTile_def findTile_search.simps)

lemma findTile_start_present:
  assumes "wf_city c" "getTile c (fst start) (snd start) = Inr (Some s)"
  shows "\<exists>r. findTile c start f d = Some (Inr r) \<and>
           (\<forall>t. r = Some t \<longrightarrow> in_grid c t \<and> f t \<and> distanceTo s t \<le> d)"
proof -
  have "in_grid c s" using getTile_in_grid [OF assms] .
  then have "\<forall>q \<in> set [Some s]. \<exists>t. q = Some t \<and> in_grid c t" by simp
  from findTile_search_returns [OF assms(1) this, of s f d "{}"]
  show ?thesis using assms(2) by (simp add: findTile_def)
qed


lemmas search_eval = findTile_def findTile_search.simps getTileNeighbors_def push_tile_def
  getTile_def js_index_def distanceTo_def tiles_small_town street_def house_def

lemma findTile_small_town_road:
  "findTile small_town (Some 0, Some 0) (\<lambda>t. building t = Some street) 2 =
     Some (Inr (Some \<lparr>tile_x = 1, tile_y = 1, tile_id = 3, building = Some street\<rparr>))"
  by (simp add: search_eval)

lemma findTile_small_town_road_near:
  "findTile small_town (Some 0, Some 0) (\<lambda>t. building t = Some street) 1 = Some (Inr None)"
  by (simp add: search_eval)




text \<open>
  Claim C10.  On a city that satisfies the grid invariant, \<open>findTile\<close> with a start
  inside the bounds returns: it does not run forever and throws no error (every
  parcel taken from the queue is a parcel of the grid), and its result is absence or a
  parcel of the grid that satisfies the predicate within \<open>maxDistance\<close> of the start.
  With a start outside the bounds, or with an undefined coordinate, it throws a
  \<open>TypeError\<close> instead of returning absence.
\<close>

theorem findTile_returns_iff_start_in_bounds:
  assumes "wf_city c"
  shows "(0 \<le> x \<and> x < city_size c \<and> 0 \<le> y \<and> y < city_size c \<longrightarrow>
            (\<exists>r. findTile c (Some x, Some y) f d = Some (Inr r) \<and>
               (\<forall>t. r = Some t \<longrightarrow>
                  in_grid c t \<and> f t \<and> distanceTo (tiles c ! nat x ! nat y) t \<le> d))) \<and>
         (\<not> (0 \<le> x \<and> x < city_size c \<and> 0 \<le> y \<and> y < city_size c) \<longrightarrow>
            findTile c (Some x, Some y) f d = Some (Inl TypeError)) \<and>
         findTile c (None, oy) f d = Some (Inl TypeError) \<and>
         findTile c (ox, None) f d = Some (Inl TypeError)"
proof (intro conjI impI)
  assume "0 \<le> x \<and> x < city_size c \<and> 0 \<le> y \<and> y < city_size c"
  then have "getTile c (Some x) (Some y) = Inr (Some (tiles c ! nat x ! nat y))"
    using getTile_inside [OF assms, of x y] by simp
  then show "\<exists>r. findTile c (Some x, Some y) f d = Some (Inr r) \<and>
      (\<forall>t. r = Some t \<longrightarrow> in_grid c t \<and> f t \<and> distanceTo (tiles c ! nat x ! nat y) t \<le> d)"
    using findTile_start_present [OF assms, of "(Some x, Some y)" _ f d] by simp
next
  assume "\<not> (0 \<le> x \<and> x < city_size c \<and> 0 \<le> y \<and> y < city_size c)"
  then have "getTile c (Some x) (Some y) = Inr None"
    by (intro getTile_outside) auto
  then show "findTile c (Some x, Some y) f d = Some (Inl TypeError)"
    using findTile_start_absent [of c "(Some x, Some y)" f d] by simp
next
  show "findTile c (None, oy) f d = Some (Inl TypeError)"
    by (rule findTile_start_absent) (simp add: getTile_def)
next
  show "findTile c (ox, None) f d = Some (Inl TypeError)"
    by (rule findTile_start_absent) (simp add: getTile_def split: option.splits)
qed

theorem findTile_returns_iff_start_in_bounds_witness:
  "wf_city small_town \<and>
   findTile small_town (Some 0, Some 0) (\<lambda>t. building t = Some street) 2 =
     Some (Inr (Some \<lparr>tile_x = 1, tile_y = 1, tile_id = 3, building = Some street\<rparr>)) \<and>
   findTile small_town (Some 2, Some 0) (\<lambda>t. True) 2 = Some (Inl TypeError)"
  using findTile_returns_iff_start_in_bounds [OF wf_city_small_town,
      of 0 0 "\<lambda>t. building t = Some street" 2]
    findTile_returns_iff_start_in_bounds [OF wf_city_small_town, of 2 0 "\<lambda>t. True" 2]
    findTile_small_town_road wf_city_small_town
  by simp

end
